theory Spec2Isabelle
  imports Complex_Main "HOL-Library.Sublist"
begin

section \<open>ShoreSquad: the weather forecast module of js/app.js\<close>

text \<open>
  A shallow embedding of \<^verbatim>\<open>CONFIG\<close>, \<^verbatim>\<open>debounce\<close> and the class
  \<^verbatim>\<open>WeatherManager\<close> of \<^verbatim>\<open>js/app.js\<close>. Strings are byte lists (the UTF-8
  bytes of the source text), times are integers (milliseconds, as \<^verbatim>\<open>Date.now()\<close>
  returns them), exceptions are values, and the fields of the class are a record that each
  method takes and returns.
\<close>

subsection \<open>Configuration\<close>

definition WEATHER_FORECAST :: string where
  "WEATHER_FORECAST = ''https://api.data.gov.sg/v1/environment/4-day-weather-forecast''"

definition DEBOUNCE_DELAY :: int where
  "DEBOUNCE_DELAY = 300"

definition WEATHER_CACHE_TIME :: int where
  "WEATHER_CACHE_TIME = 600000"

subsection \<open>Strings\<close>

text \<open>
  \<^verbatim>\<open>String.prototype.toLowerCase\<close> on the ASCII range: the letters A to Z are mapped
  to a to z and every other byte is kept. JavaScript also lowers letters outside ASCII; the
  only ones whose lower case holds an ASCII letter are U+212A (to k, which no keyword below
  has) and U+0130 (to i followed by the combining mark U+0307, while every i of a keyword
  below is followed by a letter), so the keyword tests cannot tell the difference.
\<close>

definition toLowerCase :: "string \<Rightarrow> string" where
  "toLowerCase s =
     map (\<lambda>c. case map_of (zip ''ABCDEFGHIJKLMNOPQRSTUVWXYZ'' ''abcdefghijklmnopqrstuvwxyz'') c of
                 Some l \<Rightarrow> l
               | None \<Rightarrow> c) s"

text \<open>\<^verbatim>\<open>text.includes(k)\<close>: \<open>k\<close> occurs in \<open>text\<close> as a contiguous substring.\<close>

fun str_includes :: "string \<Rightarrow> string \<Rightarrow> bool" where
  "str_includes [] k = (k = [])"
| "str_includes (c # cs) k = (prefix k (c # cs) \<or> str_includes cs k)"

subsection \<open>The glyphs\<close>

text \<open>
  The emoji literals, byte for byte as \<^verbatim>\<open>js/app.js\<close> holds them. The code never
  looks inside them; only their identity matters.
\<close>

definition glyph_sunny :: string where
  "glyph_sunny = [CHR 0xC3, CHR 0xA2, CHR 0xCB, CHR 0x9C, CHR 0xE2, CHR 0x82, CHR 0xAC,
                  CHR 0xC3, CHR 0xAF, CHR 0xC2, CHR 0xB8]"

definition glyph_partly :: string where
  "glyph_partly = [CHR 0xC3, CHR 0xA2, CHR 0xE2, CHR 0x80, CHR 0xBA, CHR 0xE2, CHR 0x80, CHR 0xA6]"

definition glyph_cloudy :: string where
  "glyph_cloudy = [CHR 0xC3, CHR 0xA2, CHR 0xCB, CHR 0x9C, CHR 0xC3, CHR 0xAF, CHR 0xC2, CHR 0xB8]"

definition glyph_thunder :: string where
  "glyph_thunder = [CHR 0xC3, CHR 0xA2, CHR 0xE2, CHR 0x80, CHR 0xBA, CHR 0xCB, CHR 0x86,
                    CHR 0xC3, CHR 0xAF, CHR 0xC2, CHR 0xB8]"

definition glyph_rain :: string where
  "glyph_rain = [CHR 0xC3, CHR 0xB0, CHR 0xC5, CHR 0xB8, CHR 0xC5, CHR 0x92, CHR 0xC2, CHR 0xA7,
                 CHR 0xC3, CHR 0xAF, CHR 0xC2, CHR 0xB8]"

definition glyph_wind :: string where
  "glyph_wind = [CHR 0xC3, CHR 0xB0, CHR 0xC5, CHR 0xB8, CHR 0xE2, CHR 0x80, CHR 0x99,
                 CHR 0xC2, CHR 0xA8]"

definition glyph_default :: string where
  "glyph_default = [CHR 0xC3, CHR 0xB0, CHR 0xC5, CHR 0xB8, CHR 0xC5, CHR 0x92, CHR 0xC2, CHR 0xA4,
                    CHR 0xC3, CHR 0xAF, CHR 0xC2, CHR 0xB8]"

subsection \<open>Keyword mapping\<close>

text \<open>\<^verbatim>\<open>WeatherManager.mapWeatherCondition\<close>, the chain of tests in the order of the source.\<close>

definition mapWeatherCondition :: "string \<Rightarrow> string" where
  "mapWeatherCondition forecast =
     (let text = toLowerCase forecast in
      if str_includes text ''sunny'' \<or> str_includes text ''fine'' then ''Sunny''
      else if str_includes text ''partly'' then ''Partly Cloudy''
      else if str_includes text ''cloudy'' \<or> str_includes text ''overcast'' then ''Cloudy''
      else if str_includes text ''rain'' then ''Rainy''
      else if str_includes text ''thunder'' \<or> str_includes text ''storm'' then ''Thundery''
      else if str_includes text ''showers'' then ''Showers''
      else if str_includes text ''wind'' then ''Windy''
      else forecast)"

text \<open>\<^verbatim>\<open>WeatherManager.getWeatherEmoji\<close>, the chain of tests in the order of the source.\<close>

definition getWeatherEmoji :: "string \<Rightarrow> string" where
  "getWeatherEmoji forecast =
     (let text = toLowerCase forecast in
      if str_includes text ''sunny'' \<or> str_includes text ''fine'' then glyph_sunny
      else if str_includes text ''partly'' then glyph_partly
      else if str_includes text ''cloudy'' \<or> str_includes text ''overcast'' then glyph_cloudy
      else if str_includes text ''thunder'' \<or> str_includes text ''storm'' then glyph_thunder
      else if str_includes text ''showers'' then glyph_rain
      else if str_includes text ''rain'' then glyph_rain
      else if str_includes text ''wind'' then glyph_wind
      else glyph_default)"

text \<open>
  The rule list as the specification words it (section 4.1, step 3): keywords, condition
  label and glyph, tried from the top, the first rule with a keyword in the lower-cased text
  winning; with no match the label is the original text and the glyph the default one.
\<close>

definition spec_rules :: "(string list \<times> string \<times> string) list" where
  "spec_rules =
     [([''sunny'', ''fine''], ''Sunny'', glyph_sunny),
      ([''partly''], ''Partly Cloudy'', glyph_partly),
      ([''cloudy'', ''overcast''], ''Cloudy'', glyph_cloudy),
      ([''thunder'', ''storm''], ''Thundery'', glyph_thunder),
      ([''showers''], ''Showers'', glyph_rain),
      ([''rain''], ''Rainy'', glyph_rain),
      ([''wind''], ''Windy'', glyph_wind)]"

fun spec_first_match :: "(string list \<times> string \<times> string) list \<Rightarrow> string \<Rightarrow> (string \<times> string) option" where
  "spec_first_match [] text = None"
| "spec_first_match ((kws, label, glyph) # rules) text =
     (if list_ex (str_includes text) kws then Some (label, glyph)
      else spec_first_match rules text)"

definition spec_condition :: "string \<Rightarrow> string" where
  "spec_condition forecast =
     (case spec_first_match spec_rules (toLowerCase forecast) of
        Some (label, glyph) \<Rightarrow> label
      | None \<Rightarrow> forecast)"

definition spec_emoji :: "string \<Rightarrow> string" where
  "spec_emoji forecast =
     (case spec_first_match spec_rules (toLowerCase forecast) of
        Some (label, glyph) \<Rightarrow> glyph
      | None \<Rightarrow> glyph_default)"

subsection \<open>Values of a parsed response body\<close>

text \<open>
  What \<^verbatim>\<open>response.json()\<close> can resolve to, and \<^verbatim>\<open>undefined\<close>, which reading a
  missing property gives. An object holds its members in document order; as
  \<^verbatim>\<open>JSON.parse\<close> does, a lookup takes the last member of a name.
\<close>

datatype jsval =
    Undefined
  | JNull
  | JBool bool
  | JNum real
  | JStr string
  | JArr "jsval list"
  | JObj "(string \<times> jsval) list"

datatype error =
    TypeError
  | SyntaxError
  | FetchFailed
  | WeatherApiError nat

text \<open>Truthiness, as \<^verbatim>\<open>!data.items\<close> tests it.\<close>

fun truthy :: "jsval \<Rightarrow> bool" where
  "truthy Undefined = False"
| "truthy JNull = False"
| "truthy (JBool b) = b"
| "truthy (JNum n) = (n \<noteq> 0)"
| "truthy (JStr s) = (s \<noteq> [])"
| "truthy (JArr xs) = True"
| "truthy (JObj kvs) = True"

text \<open>
  \<^verbatim>\<open>v.name\<close> for the names \<^verbatim>\<open>items\<close>, \<^verbatim>\<open>forecasts\<close> and \<^verbatim>\<open>forecast\<close>,
  which no prototype defines: reading from \<^verbatim>\<open>null\<close> or \<^verbatim>\<open>undefined\<close> throws a
  TypeError, an object gives its member, every other value gives \<^verbatim>\<open>undefined\<close>.
\<close>

fun js_get :: "jsval \<Rightarrow> string \<Rightarrow> error + jsval" where
  "js_get Undefined name = Inl TypeError"
| "js_get JNull name = Inl TypeError"
| "js_get (JObj kvs) name = Inr (case map_of (rev kvs) name of Some v \<Rightarrow> v | None \<Rightarrow> Undefined)"
| "js_get v name = Inr Undefined"

text \<open>
  \<^verbatim>\<open>v.length\<close>: the number of elements of an array, the length of a string (in this
  model its number of bytes; the code only compares it with 0), the member of that name of
  an object.
\<close>

fun js_length :: "jsval \<Rightarrow> error + jsval" where
  "js_length (JArr xs) = Inr (JNum (real (length xs)))"
| "js_length (JStr s) = Inr (JNum (real (length s)))"
| "js_length v = js_get v ''length''"

text \<open>\<^verbatim>\<open>v === 0\<close>\<close>

fun strict_eq_zero :: "jsval \<Rightarrow> bool" where
  "strict_eq_zero (JNum n) = (n = 0)"
| "strict_eq_zero v = False"

text \<open>
  \<^verbatim>\<open>v[0]\<close>: the first element of an array or the first character of a string
  (\<^verbatim>\<open>undefined\<close> when there is none), the member \<^verbatim>\<open>"0"\<close> of an object.
\<close>

fun js_index0 :: "jsval \<Rightarrow> error + jsval" where
  "js_index0 (JArr []) = Inr Undefined"
| "js_index0 (JArr (x # xs)) = Inr x"
| "js_index0 (JStr []) = Inr Undefined"
| "js_index0 (JStr (c # cs)) = Inr (JStr [c])"
| "js_index0 v = js_get v ''0''"

text \<open>
  \<^verbatim>\<open>v.slice(0, 4)\<close> followed by \<^verbatim>\<open>.map\<close>: only an array has both methods. A string
  has \<^verbatim>\<open>slice\<close> but its result has no \<^verbatim>\<open>map\<close>; a member of an object parsed from
  JSON is never a function. Every value but an array ends in a TypeError.
\<close>

fun js_slice4 :: "jsval \<Rightarrow> error + jsval list" where
  "js_slice4 (JArr xs) = Inr (take 4 xs)"
| "js_slice4 v = Inl TypeError"

subsection \<open>Forecast records and the calendar\<close>

record ForecastDay =
  day :: string
  date :: string
  condition :: string
  forecast :: string
  emoji :: string

text \<open>
  The clock and the locale as one value per refresh: the current local day (counted in
  days), and the two \<^verbatim>\<open>toLocaleDateString('en-SG', ...)\<close> formats of a day, which the
  platform supplies.
\<close>

record calendar =
  today :: int
  weekdayShort :: "int \<Rightarrow> string"
  monthDay :: "int \<Rightarrow> string"

text \<open>\<^verbatim>\<open>WeatherManager.formatDay\<close>\<close>

definition formatDay :: "calendar \<Rightarrow> int \<Rightarrow> string" where
  "formatDay cal d =
     (if d = today cal then ''Today''
      else if d = today cal + 1 then ''Tomorrow''
      else weekdayShort cal d)"

text \<open>\<^verbatim>\<open>WeatherManager.getSimulatedWeather\<close>\<close>

definition getSimulatedWeather :: "ForecastDay list" where
  "getSimulatedWeather =
     [\<lparr>day = ''Today'', date = ''Dec 2'', condition = ''Sunny'',
       forecast = ''Sunny'', emoji = glyph_sunny\<rparr>,
      \<lparr>day = ''Tomorrow'', date = ''Dec 3'', condition = ''Partly Cloudy'',
       forecast = ''Partly cloudy'', emoji = glyph_partly\<rparr>,
      \<lparr>day = ''Wednesday'', date = ''Dec 4'', condition = ''Thundery'',
       forecast = ''Thundery showers'', emoji = glyph_thunder\<rparr>,
      \<lparr>day = ''Thursday'', date = ''Dec 5'', condition = ''Rainy'',
       forecast = ''Rainy'', emoji = glyph_rain\<rparr>]"

subsection \<open>Parsing the response\<close>

datatype event =
    Console_log string
  | Console_warn string
  | Console_error string
  | Fetch string
  | Announce string

text \<open>
  The callback of \<^verbatim>\<open>map\<close> in \<^verbatim>\<open>parseNEAResponse\<close>, for the entry at \<open>index\<close>.
  \<^verbatim>\<open>dayForecast.forecast\<close> throws on \<^verbatim>\<open>null\<close>, and \<^verbatim>\<open>forecast.toLowerCase()\<close>
  in \<^verbatim>\<open>mapWeatherCondition\<close> throws on everything but a string.
\<close>

definition forecast_entry :: "calendar \<Rightarrow> nat \<Rightarrow> jsval \<Rightarrow> error + ForecastDay" where
  "forecast_entry cal index dayForecast =
     (let forecastDate = today cal + int index in
      case js_get dayForecast ''forecast'' of
        Inl e \<Rightarrow> Inl e
      | Inr (JStr text) \<Rightarrow>
          Inr \<lparr>day = formatDay cal forecastDate,
               date = monthDay cal forecastDate,
               condition = mapWeatherCondition text,
               forecast = text,
               emoji = getWeatherEmoji text\<rparr>
      | Inr v \<Rightarrow> Inl TypeError)"

fun map_entries :: "calendar \<Rightarrow> nat \<Rightarrow> jsval list \<Rightarrow> error + ForecastDay list" where
  "map_entries cal index [] = Inr []"
| "map_entries cal index (d # ds) =
     (case forecast_entry cal index d of
        Inl e \<Rightarrow> Inl e
      | Inr w \<Rightarrow>
          (case map_entries cal (Suc index) ds of
             Inl e \<Rightarrow> Inl e
           | Inr ws \<Rightarrow> Inr (w # ws)))"

text \<open>The body of the \<^verbatim>\<open>try\<close> block of \<^verbatim>\<open>parseNEAResponse\<close>.\<close>

definition parse_body :: "calendar \<Rightarrow> jsval \<Rightarrow> error + ForecastDay list" where
  "parse_body cal data =
     (case js_get data ''items'' of
        Inl e \<Rightarrow> Inl e
      | Inr items \<Rightarrow>
          if \<not> truthy items then Inr getSimulatedWeather
          else
            (case js_length items of
               Inl e \<Rightarrow> Inl e
             | Inr len \<Rightarrow>
                 if strict_eq_zero len then Inr getSimulatedWeather
                 else
                   (case js_index0 items of
                      Inl e \<Rightarrow> Inl e
                    | Inr item \<Rightarrow>
                        (case js_get item ''forecasts'' of
                           Inl e \<Rightarrow> Inl e
                         | Inr forecasts \<Rightarrow>
                             (case js_slice4 forecasts of
                                Inl e \<Rightarrow> Inl e
                              | Inr days \<Rightarrow> map_entries cal 0 days)))))"

text \<open>\<^verbatim>\<open>WeatherManager.parseNEAResponse\<close>: the result and what it writes to the console.\<close>

definition parseNEAResponse :: "calendar \<Rightarrow> jsval \<Rightarrow> ForecastDay list \<times> event list" where
  "parseNEAResponse cal data =
     (case parse_body cal data of
        Inr weatherData \<Rightarrow> (weatherData, [])
      | Inl err \<Rightarrow> (getSimulatedWeather, [Console_warn ''Error parsing NEA response:'']))"

subsection \<open>Rendering\<close>

text \<open>
  The fields of a \<^verbatim>\<open>WeatherManager\<close>. \<open>weatherGrid\<close> is the element
  \<^verbatim>\<open>#weather-grid\<close>: \<open>None\<close> when the page has none, else its \<^verbatim>\<open>innerHTML\<close>.
\<close>

record WeatherManager =
  weatherGrid :: "string option"
  weatherCache :: "ForecastDay list option"
  lastFetchTime :: int

text \<open>The constructor, given what \<^verbatim>\<open>document.getElementById('weather-grid')\<close> finds.\<close>

definition new_WeatherManager :: "string option \<Rightarrow> WeatherManager" where
  "new_WeatherManager grid = \<lparr>weatherGrid = grid, weatherCache = None, lastFetchTime = 0\<rparr>"

text \<open>The template literal of \<^verbatim>\<open>renderWeather\<close>, for one record.\<close>

definition weather_card :: "ForecastDay \<Rightarrow> string" where
  \<open>weather_card weather =
     [CHR 0x0A] @
     ''            <div class="weather-card" role="region" aria-label="Weather for '' @ day weather @ ''">'' @ [CHR 0x0A] @
     ''                <h4>'' @ day weather @ ''</h4>'' @ [CHR 0x0A] @
     ''                <p class="weather-date">'' @ date weather @ ''</p>'' @ [CHR 0x0A] @
     ''                <div style="font-size: 2.5rem; margin: 1rem 0;">'' @ emoji weather @ ''</div>'' @ [CHR 0x0A] @
     ''                <p class="weather-condition"><strong>'' @ condition weather @ ''</strong></p>'' @ [CHR 0x0A] @
     ''                <p style="font-size: 0.9rem; opacity: 0.9;">{{ weather.forecast }}</p>'' @ [CHR 0x0A] @
     ''            </div>'' @ [CHR 0x0A] @
     ''        ''\<close>

text \<open>\<^verbatim>\<open>WeatherManager.renderWeather\<close>\<close>

definition renderWeather :: "ForecastDay list \<Rightarrow> WeatherManager \<Rightarrow> WeatherManager \<times> event list" where
  "renderWeather data s =
     (case weatherGrid s of
        None \<Rightarrow> (s, [])
      | Some old \<Rightarrow>
          (s\<lparr>weatherGrid := Some (concat (map weather_card data))\<rparr>,
           [Console_log ''Weather cards rendered successfully'']))"

definition fallback_html :: string where
  \<open>fallback_html =
     [CHR 0x0A] @
     ''            <div class="weather-card" style="grid-column: 1/-1; text-align: center;">'' @ [CHR 0x0A] @
     ''                <p style="margin: 0; opacity: 0.7;">'' @ [CHR 0x0A] @
     ''                    Unable to fetch live weather data. Please check the NEA API connection.'' @ [CHR 0x0A] @
     ''                </p>'' @ [CHR 0x0A] @
     ''            </div>'' @ [CHR 0x0A] @
     ''        ''\<close>

text \<open>\<^verbatim>\<open>WeatherManager.renderWeatherFallback\<close>\<close>

definition renderWeatherFallback :: "WeatherManager \<Rightarrow> WeatherManager" where
  "renderWeatherFallback s =
     (case weatherGrid s of
        None \<Rightarrow> s
      | Some old \<Rightarrow> s\<lparr>weatherGrid := Some fallback_html\<rparr>)"

subsection \<open>Fetching\<close>

text \<open>
  What \<^verbatim>\<open>fetch\<close> and \<^verbatim>\<open>response.json()\<close> give when they are asked: a rejected
  promise, or a response with its status and its body (\<open>None\<close> when the body is not JSON,
  so that \<^verbatim>\<open>response.json()\<close> rejects).
\<close>

datatype fetch_result =
    Rejected
  | Response nat "jsval option"

text \<open>\<^verbatim>\<open>response.ok\<close>\<close>

definition ok :: "nat \<Rightarrow> bool" where
  "ok status = (200 \<le> status \<and> status \<le> 299)"

text \<open>
  The \<^verbatim>\<open>try\<close> block of \<^verbatim>\<open>fetchWeather\<close> from the request on: the state and the
  events so far, and the exception when one was thrown.
\<close>

definition fetch_and_parse ::
  "calendar \<Rightarrow> int \<Rightarrow> fetch_result \<Rightarrow> WeatherManager \<Rightarrow> (WeatherManager \<times> event list) \<times> error option" where
  "fetch_and_parse cal now net s =
     (let started = [Console_log ''Fetching NEA weather data...'', Fetch WEATHER_FORECAST] in
      case net of
        Rejected \<Rightarrow> ((s, started), Some FetchFailed)
      | Response status body \<Rightarrow>
          if \<not> ok status then ((s, started), Some (WeatherApiError status))
          else
            (case body of
               None \<Rightarrow> ((s, started), Some SyntaxError)
             | Some data \<Rightarrow>
                 (let (weatherData, warned) = parseNEAResponse cal data;
                      s1 = s\<lparr>weatherCache := Some weatherData, lastFetchTime := now\<rparr>;
                      (s2, rendered) = renderWeather weatherData s1
                  in ((s2, started @ warned @ rendered @ [Announce ''Weather forecast updated'']),
                      None))))"

text \<open>The whole \<^verbatim>\<open>try\<close> block: the cache check first.\<close>

definition fetchWeather_try ::
  "calendar \<Rightarrow> int \<Rightarrow> fetch_result \<Rightarrow> WeatherManager \<Rightarrow> (WeatherManager \<times> event list) \<times> error option" where
  "fetchWeather_try cal now net s =
     (case weatherCache s of
        None \<Rightarrow> fetch_and_parse cal now net s
      | Some cached \<Rightarrow>
          if now - lastFetchTime s < WEATHER_CACHE_TIME then
            (let (s1, rendered) = renderWeather cached s
             in ((s1, Console_log ''Using cached weather data'' # rendered), None))
          else fetch_and_parse cal now net s)"

text \<open>The \<^verbatim>\<open>catch\<close> block of \<^verbatim>\<open>fetchWeather\<close>.\<close>

definition fetchWeather_catch :: "WeatherManager \<Rightarrow> WeatherManager \<times> event list" where
  "fetchWeather_catch s =
     (let told = [Console_error ''Weather fetch error:'',
                  Announce ''Could not load weather data. Showing cached data.'']
      in case weatherCache s of
           Some cached \<Rightarrow> (let (s1, rendered) = renderWeather cached s in (s1, told @ rendered))
         | None \<Rightarrow> (renderWeatherFallback s, told))"

text \<open>
  \<^verbatim>\<open>WeatherManager.fetchWeather\<close>, called at time \<open>now\<close> with the network answering
  \<open>net\<close> if it is asked: the fields afterwards and the events in their order.
\<close>

definition fetchWeather ::
  "calendar \<Rightarrow> int \<Rightarrow> fetch_result \<Rightarrow> WeatherManager \<Rightarrow> WeatherManager \<times> event list" where
  "fetchWeather cal now net s =
     (case fetchWeather_try cal now net s of
        ((s1, evs), None) \<Rightarrow> (s1, evs)
      | ((s1, evs), Some err) \<Rightarrow> (let (s2, more) = fetchWeather_catch s1 in (s2, evs @ more)))"

text \<open>The number of requests among the events of a run.\<close>

definition network_accesses :: "event list \<Rightarrow> nat" where
  "network_accesses evs = length (filter (\<lambda>e. case e of Fetch url \<Rightarrow> True | _ \<Rightarrow> False) evs)"

text \<open>
  How a request can fail before \<^verbatim>\<open>parseNEAResponse\<close> is reached: the transport fails
  (the promise of \<^verbatim>\<open>fetch\<close> is rejected, or the status is not 2xx), or the body of a
  2xx response is not JSON.
\<close>

fun transport_fails :: "fetch_result \<Rightarrow> bool" where
  "transport_fails Rejected = True"
| "transport_fails (Response status body) = (\<not> ok status)"

fun body_malformed :: "fetch_result \<Rightarrow> bool" where
  "body_malformed Rejected = False"
| "body_malformed (Response status body) = (ok status \<and> body = None)"

text \<open>
  A body whose \<^verbatim>\<open>items\<close> collection is missing (reading it gives \<^verbatim>\<open>undefined\<close>) or
  is the empty array.
\<close>

definition items_missing_or_empty :: "jsval \<Rightarrow> bool" where
  "items_missing_or_empty data =
     (js_get data ''items'' = Inr Undefined \<or> js_get data ''items'' = Inr (JArr []))"

text \<open>
  Refreshes one after the other, each with its calendar, its clock value and the answer
  the network would give: the fields after the last one and all events.
\<close>

fun refreshes :: "(calendar \<times> int \<times> fetch_result) list \<Rightarrow> WeatherManager \<Rightarrow> WeatherManager \<times> event list" where
  "refreshes [] s = (s, [])"
| "refreshes ((cal, now, net) # rest) s =
     (let (s1, evs) = fetchWeather cal now net s;
          (s2, more) = refreshes rest s1
      in (s2, evs @ more))"

subsection \<open>Example inputs\<close>

text \<open>
  A calendar for 2 December 2025 (a Tuesday, day 20424 after 1 January 1970, which was a
  Thursday), the response body of \<^verbatim>\<open>WEATHER_API.md\<close>, and a manager holding a cache
  entry fetched at time 1000.
\<close>

definition example_weekday :: "int \<Rightarrow> string" where
  "example_weekday d = [''Thu'', ''Fri'', ''Sat'', ''Sun'', ''Mon'', ''Tue'', ''Wed''] ! nat (d mod 7)"

definition example_monthDay :: "int \<Rightarrow> string" where
  "example_monthDay d =
     (case map_of [(20424 :: int, ''2 Dec''), (20425, ''3 Dec''), (20426, ''4 Dec''), (20427, ''5 Dec'')] d of
        Some text \<Rightarrow> text
      | None \<Rightarrow> [])"

definition example_calendar :: calendar where
  "example_calendar = \<lparr>today = 20424, weekdayShort = example_weekday, monthDay = example_monthDay\<rparr>"

definition example_body :: jsval where
  "example_body =
     JObj [(''items'',
        JArr [JObj [(''forecasts'',
          JArr [JObj [(''area'', JStr ''Singapore''), (''forecast'', JStr ''Sunny'')],
                JObj [(''area'', JStr ''Singapore''), (''forecast'', JStr ''Partly cloudy'')],
                JObj [(''area'', JStr ''Singapore''), (''forecast'', JStr ''Thundery showers'')],
                JObj [(''area'', JStr ''Singapore''), (''forecast'', JStr ''Rainy'')]])]])]"

definition example_forecast :: "ForecastDay list" where
  "example_forecast =
     [\<lparr>day = ''Today'', date = ''2 Dec'', condition = ''Showers'',
       forecast = ''Passing showers'', emoji = glyph_rain\<rparr>]"

definition example_state :: WeatherManager where
  "example_state = \<lparr>weatherGrid = Some [], weatherCache = Some example_forecast, lastFetchTime = 1000\<rparr>"

subsection \<open>Timers and \<^verbatim>\<open>debounce\<close>\<close>

text \<open>
  The timer table of the event loop, as far as \<^verbatim>\<open>debounce\<close> uses it: an entry holds the
  identifier \<^verbatim>\<open>setTimeout\<close> returned, the time at which the timer is due, and the
  arguments its callback passes on to \<^verbatim>\<open>func\<close>.
\<close>

record 'a timer_table =
  pending :: "(nat \<times> int \<times> 'a) list"
  next_id :: nat

definition setTimeout :: "int \<Rightarrow> int \<Rightarrow> 'a \<Rightarrow> 'a timer_table \<Rightarrow> nat \<times> 'a timer_table" where
  "setTimeout now delay args tab =
     (next_id tab,
      tab\<lparr>pending := pending tab @ [(next_id tab, now + delay, args)],
          next_id := Suc (next_id tab)\<rparr>)"

text \<open>\<^verbatim>\<open>clearTimeout(undefined)\<close> and clearing a timer that has fired do nothing.\<close>

definition clearTimeout :: "nat option \<Rightarrow> 'a timer_table \<Rightarrow> 'a timer_table" where
  "clearTimeout tid tab =
     (case tid of
        None \<Rightarrow> tab
      | Some i \<Rightarrow> tab\<lparr>pending := filter (\<lambda>(j, due, args). j \<noteq> i) (pending tab)\<rparr>)"

text \<open>
  A function made by \<^verbatim>\<open>debounce(func, delay)\<close>: the variable \<^verbatim>\<open>timeoutId\<close> of its
  closure (\<open>None\<close> for \<^verbatim>\<open>undefined\<close>), the timer table, and the calls of \<^verbatim>\<open>func\<close>
  made so far, each with the time its timer was due and its arguments.
\<close>

record 'a debounced =
  timeoutId :: "nat option"
  timers :: "'a timer_table"
  executed :: "(int \<times> 'a) list"

definition new_debounced :: "'a debounced" where
  "new_debounced = \<lparr>timeoutId = None, timers = \<lparr>pending = [], next_id = 1\<rparr>, executed = []\<rparr>"

text \<open>The body of the returned function, called at time \<open>now\<close> with \<open>args\<close>.\<close>

definition debounced_call :: "int \<Rightarrow> int \<Rightarrow> 'a \<Rightarrow> 'a debounced \<Rightarrow> 'a debounced" where
  "debounced_call delay now args d =
     (let tab = clearTimeout (timeoutId d) (timers d);
          (i, tab') = setTimeout now delay args tab
      in d\<lparr>timeoutId := Some i, timers := tab'\<rparr>)"

text \<open>
  The event loop reaching time \<open>now\<close>: the timers due by then fire in the order of their
  due times, each calling \<^verbatim>\<open>func\<close> with its arguments, and leave the table.
\<close>

definition run_timers :: "int \<Rightarrow> 'a debounced \<Rightarrow> 'a debounced" where
  "run_timers now d =
     (let due = filter (\<lambda>(i, t, args). t \<le> now) (pending (timers d));
          later = filter (\<lambda>(i, t, args). now < t) (pending (timers d))
      in d\<lparr>timers := (timers d)\<lparr>pending := later\<rparr>,
           executed := executed d @ map (\<lambda>(i, t, args). (t, args)) (sort_key (\<lambda>(i, t, args). t) due)\<rparr>)"

text \<open>
  A request through the debounced entry point at time \<open>now\<close>: the timers already due have
  fired, then the function made by \<^verbatim>\<open>debounce(..., CONFIG.DEBOUNCE_DELAY)\<close> is called.
  \<^verbatim>\<open>loadWeatherData\<close> is this with \<^verbatim>\<open>func = () => this.fetchWeather()\<close>.
\<close>

definition loadWeatherData :: "int \<Rightarrow> 'a \<Rightarrow> 'a debounced \<Rightarrow> 'a debounced" where
  "loadWeatherData now args d = debounced_call DEBOUNCE_DELAY now args (run_timers now d)"

text \<open>At most the timer that \<^verbatim>\<open>timeoutId\<close> names is pending.\<close>

definition debounce_inv :: "'a debounced \<Rightarrow> bool" where
  "debounce_inv d = list_all (\<lambda>(i, t, args). timeoutId d = Some i) (pending (timers d))"

section \<open>Properties\<close>

subsection \<open>Strings\<close>

lemma str_includes_sublist: "str_includes t k = sublist k t"
  by (induction t) (auto simp: sublist_Cons_right)

lemma str_includes_append_right: "str_includes t k \<Longrightarrow> str_includes (p @ t) k"
  by (induction p) auto

lemma str_includes_here: "str_includes (k @ s) k"
  using sublist_appendI [of k "[]" s] by (simp add: str_includes_sublist)

lemma toLowerCase_length: "length (toLowerCase s) = length s"
  by (simp add: toLowerCase_def)

subsection \<open>Keyword mapping\<close>

text \<open>The glyph is chosen by the rule list of the specification, for every forecast text.\<close>

lemma getWeatherEmoji_spec: "getWeatherEmoji raw = spec_emoji raw"
  by (simp add: getWeatherEmoji_def spec_emoji_def spec_rules_def Let_def)

text \<open>
  The label is the one of the specification's rule list whenever the text does not hold
  ``rain'' together with one of ``thunder'', ``storm'' and ``showers''.
\<close>

lemma mapWeatherCondition_spec:
  assumes "\<not> (str_includes (toLowerCase raw) ''rain'' \<and>
              (str_includes (toLowerCase raw) ''thunder'' \<or>
               str_includes (toLowerCase raw) ''storm'' \<or>
               str_includes (toLowerCase raw) ''showers''))"
  shows "mapWeatherCondition raw = spec_condition raw"
  using assms by (auto simp: mapWeatherCondition_def spec_condition_def spec_rules_def Let_def)

text \<open>
  When no earlier rule matches, a text with ``rain'' and ``thunder'' gets the label of the
  ``rain'' rule and the glyph of the ``thunder'' rule.
\<close>

lemma thunder_and_rain:
  assumes "str_includes (toLowerCase raw) ''thunder''" and "str_includes (toLowerCase raw) ''rain''"
    and "spec_first_match (take 3 spec_rules) (toLowerCase raw) = None"
  shows "mapWeatherCondition raw = ''Rainy''" and "getWeatherEmoji raw = glyph_thunder"
    and "spec_condition raw = ''Thundery''"
  using assms
  by (auto simp: mapWeatherCondition_def getWeatherEmoji_def spec_condition_def spec_rules_def
      Let_def split: if_splits)

text \<open>
  C1: a forecast text holding both ``thunder'' and ``rain'' should map to Thundery. In
  \<^verbatim>\<open>mapWeatherCondition\<close> the test for ``rain'' stands before the test for
  ``thunder'': the text ``Heavy thundery rain'' holds both keywords and is mapped to Rainy,
  where the rule list of the specification gives Thundery.
\<close>

theorem C1_thunder_rain_maps_to_rainy:
  "str_includes (toLowerCase ''Heavy thundery rain'') ''thunder'' \<and>
   str_includes (toLowerCase ''Heavy thundery rain'') ''rain'' \<and>
   mapWeatherCondition ''Heavy thundery rain'' = ''Rainy'' \<and>
   spec_condition ''Heavy thundery rain'' = ''Thundery''"
  by (simp add: mapWeatherCondition_def spec_condition_def spec_rules_def toLowerCase_def)

text \<open>
  C4: label and glyph should come from the same rule. For ``Thundery rain later'' the label
  is the one of the ``rain'' rule and the glyph the one of the ``thunder'' rule, so the card
  pairs Rainy with the thunder glyph; the two functions test the keywords in different orders.
\<close>

theorem C4_label_and_glyph_from_different_rules:
  "mapWeatherCondition ''Thundery rain later'' = ''Rainy'' \<and>
   getWeatherEmoji ''Thundery rain later'' = glyph_thunder \<and>
   spec_first_match spec_rules (toLowerCase ''Thundery rain later'') = Some (''Thundery'', glyph_thunder) \<and>
   glyph_thunder \<noteq> glyph_rain"
  by (simp add: mapWeatherCondition_def getWeatherEmoji_def spec_rules_def toLowerCase_def
      glyph_thunder_def glyph_rain_def)

subsection \<open>Refreshing\<close>

lemma renderWeather_cache [simp]:
  "weatherCache (fst (renderWeather data s)) = weatherCache s"
  "lastFetchTime (fst (renderWeather data s)) = lastFetchTime s"
  by (simp_all add: renderWeather_def split: option.splits)

lemma renderWeather_grid:
  "weatherGrid (fst (renderWeather data s)) =
     (case weatherGrid s of None \<Rightarrow> None | Some old \<Rightarrow> Some (concat (map weather_card data)))"
  by (simp add: renderWeather_def split: option.splits)

lemma renderWeather_no_request [simp]:
  "network_accesses (snd (renderWeather data s)) = 0"
  by (simp add: renderWeather_def network_accesses_def split: option.splits)

lemma network_accesses_append [simp]:
  "network_accesses (xs @ ys) = network_accesses xs + network_accesses ys"
  by (simp add: network_accesses_def)

lemma network_accesses_Cons [simp]:
  "network_accesses (Fetch url # xs) = Suc (network_accesses xs)"
  "network_accesses (Console_log m # xs) = network_accesses xs"
  "network_accesses (Console_warn m # xs) = network_accesses xs"
  "network_accesses (Console_error m # xs) = network_accesses xs"
  "network_accesses (Announce m # xs) = network_accesses xs"
  "network_accesses [] = 0"
  by (simp_all add: network_accesses_def)

lemma parseNEAResponse_no_request [simp]:
  "network_accesses (snd (parseNEAResponse cal data)) = 0"
  by (simp add: parseNEAResponse_def split: sum.splits)

lemma fetchWeather_cache_hit:
  assumes "weatherCache s = Some cached" and "now - lastFetchTime s < WEATHER_CACHE_TIME"
  shows "fetchWeather cal now net s =
           (fst (renderWeather cached s),
            Console_log ''Using cached weather data'' # snd (renderWeather cached s))"
  using assms by (simp add: fetchWeather_def fetchWeather_try_def split: prod.splits)

lemma fetchWeather_cache_miss:
  assumes "weatherCache s = None \<or> WEATHER_CACHE_TIME \<le> now - lastFetchTime s"
  shows "fetchWeather cal now net s =
           (case fetch_and_parse cal now net s of
              ((s1, evs), None) \<Rightarrow> (s1, evs)
            | ((s1, evs), Some err) \<Rightarrow>
                (fst (fetchWeather_catch s1), evs @ snd (fetchWeather_catch s1)))"
  using assms
  by (auto simp: fetchWeather_def fetchWeather_try_def split: prod.splits option.splits)

lemma fetch_and_parse_throws:
  assumes "transport_fails net \<or> body_malformed net"
  shows "\<exists>err. fetch_and_parse cal now net s =
           ((s, [Console_log ''Fetching NEA weather data...'', Fetch WEATHER_FORECAST]), Some err)"
  using assms by (cases net) (auto simp: fetch_and_parse_def Let_def split: option.splits)

lemma fetch_and_parse_succeeds:
  assumes "ok status"
  shows "fetch_and_parse cal now (Response status (Some data)) s =
           ((fst (renderWeather (fst (parseNEAResponse cal data))
                    (s\<lparr>weatherCache := Some (fst (parseNEAResponse cal data)), lastFetchTime := now\<rparr>)),
             [Console_log ''Fetching NEA weather data...'', Fetch WEATHER_FORECAST] @
             snd (parseNEAResponse cal data) @
             snd (renderWeather (fst (parseNEAResponse cal data))
                    (s\<lparr>weatherCache := Some (fst (parseNEAResponse cal data)), lastFetchTime := now\<rparr>)) @
             [Announce ''Weather forecast updated'']),
            None)"
  using assms by (simp add: fetch_and_parse_def Let_def split: prod.splits)

lemma fetchWeather_catch_cached:
  assumes "weatherCache s = Some cached"
  shows "fetchWeather_catch s =
           (fst (renderWeather cached s),
            [Console_error ''Weather fetch error:'',
             Announce ''Could not load weather data. Showing cached data.''] @
            snd (renderWeather cached s))"
  using assms by (simp add: fetchWeather_catch_def Let_def split: prod.splits)

lemma fetchWeather_catch_empty:
  assumes "weatherCache s = None"
  shows "fetchWeather_catch s =
           (renderWeatherFallback s,
            [Console_error ''Weather fetch error:'',
             Announce ''Could not load weather data. Showing cached data.''])"
  using assms by (simp add: fetchWeather_catch_def Let_def)

lemma fetchWeather_catch_no_request [simp]:
  "network_accesses (snd (fetchWeather_catch s)) = 0"
  by (cases "weatherCache s") (simp_all add: fetchWeather_catch_cached fetchWeather_catch_empty)

lemma fetchWeather_failure:
  assumes "weatherCache s = None \<or> WEATHER_CACHE_TIME \<le> now - lastFetchTime s"
    and "transport_fails net \<or> body_malformed net"
  shows "fetchWeather cal now net s =
           (fst (fetchWeather_catch s),
            [Console_log ''Fetching NEA weather data...'', Fetch WEATHER_FORECAST] @
            snd (fetchWeather_catch s))"
proof -
  obtain err where "fetch_and_parse cal now net s =
      ((s, [Console_log ''Fetching NEA weather data...'', Fetch WEATHER_FORECAST]), Some err)"
    using fetch_and_parse_throws [OF assms(2)] by blast
  then show ?thesis
    by (simp add: fetchWeather_cache_miss [OF assms(1)])
qed

lemma fetchWeather_success:
  assumes "weatherCache s = None \<or> WEATHER_CACHE_TIME \<le> now - lastFetchTime s"
    and "ok status"
  shows "fetchWeather cal now (Response status (Some data)) s =
           (fst (renderWeather (fst (parseNEAResponse cal data))
                    (s\<lparr>weatherCache := Some (fst (parseNEAResponse cal data)), lastFetchTime := now\<rparr>)),
             [Console_log ''Fetching NEA weather data...'', Fetch WEATHER_FORECAST] @
             snd (parseNEAResponse cal data) @
             snd (renderWeather (fst (parseNEAResponse cal data))
                    (s\<lparr>weatherCache := Some (fst (parseNEAResponse cal data)), lastFetchTime := now\<rparr>)) @
             [Announce ''Weather forecast updated''])"
  by (simp add: fetchWeather_cache_miss [OF assms(1)] fetch_and_parse_succeeds [OF assms(2)])

lemma net_cases:
  "transport_fails net \<or> body_malformed net \<or> (\<exists>status data. net = Response status (Some data) \<and> ok status)"
  by (cases net) auto

lemma cards_not_fallback: "concat (map weather_card data) \<noteq> fallback_html"
proof (cases data)
  case Nil
  then show ?thesis by (simp add: fallback_html_def)
next
  case (Cons w ws)
  have "take 40 (concat (map weather_card (w # ws))) \<noteq> take 40 fallback_html"
    by (simp add: weather_card_def fallback_html_def)
  then have "concat (map weather_card (w # ws)) \<noteq> fallback_html"
    by metis
  then show ?thesis unfolding Cons .
qed

text \<open>
  C5: a refresh less than 600000 ms after the time stored with the cache entry makes no
  request and renders the cached entries, leaving the other fields as they are; a refresh
  600000 ms or more after it makes exactly one request.
\<close>

theorem C5_cache_window:
  "(weatherCache s = Some cached \<and> now - lastFetchTime s < 600000 \<longrightarrow>
      network_accesses (snd (fetchWeather cal now net s)) = 0 \<and>
      fst (fetchWeather cal now net s) =
        s\<lparr>weatherGrid := map_option (\<lambda>old. concat (map weather_card cached)) (weatherGrid s)\<rparr>) \<and>
   (600000 \<le> now - lastFetchTime s \<longrightarrow>
      network_accesses (snd (fetchWeather cal now net s)) = 1)"
proof (intro conjI impI)
  assume h: "weatherCache s = Some cached \<and> now - lastFetchTime s < 600000"
  then have eq: "fetchWeather cal now net s =
      (fst (renderWeather cached s), Console_log ''Using cached weather data'' # snd (renderWeather cached s))"
    by (simp add: fetchWeather_cache_hit WEATHER_CACHE_TIME_def)
  show "network_accesses (snd (fetchWeather cal now net s)) = 0"
    by (simp add: eq)
  show "fst (fetchWeather cal now net s) =
        s\<lparr>weatherGrid := map_option (\<lambda>old. concat (map weather_card cached)) (weatherGrid s)\<rparr>"
    by (simp add: eq renderWeather_def split: option.splits)
next
  assume "600000 \<le> now - lastFetchTime s"
  then have miss: "weatherCache s = None \<or> WEATHER_CACHE_TIME \<le> now - lastFetchTime s"
    by (simp add: WEATHER_CACHE_TIME_def)
  consider (fail) "transport_fails net \<or> body_malformed net"
    | (good) status data where "net = Response status (Some data)" "ok status"
    using net_cases [of net] by blast
  then show "network_accesses (snd (fetchWeather cal now net s)) = 1"
  proof cases
    case fail
    show ?thesis
      by (simp add: fetchWeather_failure [OF miss fail])
  next
    case good
    show ?thesis
      by (simp add: good(1) fetchWeather_success [OF miss good(2)])
  qed
qed

theorem C5_cache_window_witness:
  "weatherCache example_state = Some example_forecast \<and>
   500000 - lastFetchTime example_state < 600000 \<and>
   network_accesses (snd (fetchWeather example_calendar 500000 Rejected example_state)) = 0 \<and>
   fst (fetchWeather example_calendar 500000 Rejected example_state) =
     example_state\<lparr>weatherGrid := Some (concat (map weather_card example_forecast))\<rparr> \<and>
   600000 \<le> 601000 - lastFetchTime example_state \<and>
   network_accesses (snd (fetchWeather example_calendar 601000 (Response 200 (Some example_body)) example_state)) = 1"
  using C5_cache_window [where s = example_state and cached = example_forecast and now = 500000
      and cal = example_calendar and net = Rejected]
    C5_cache_window [where s = example_state and cached = example_forecast and now = 601000
      and cal = example_calendar and net = "Response 200 (Some example_body)"]
  by (simp add: example_state_def)

text \<open>
  Without a cache entry every failing request ends with the message of
  \<^verbatim>\<open>renderWeatherFallback\<close> in the grid, whatever the failure.
\<close>

lemma fetchWeather_failure_no_cache:
  assumes "weatherCache s = None" and "transport_fails net \<or> body_malformed net"
  shows "fetchWeather cal now net s =
           (s\<lparr>weatherGrid := map_option (\<lambda>old. fallback_html) (weatherGrid s)\<rparr>,
            [Console_log ''Fetching NEA weather data...'', Fetch WEATHER_FORECAST,
             Console_error ''Weather fetch error:'',
             Announce ''Could not load weather data. Showing cached data.''])"
proof -
  have "weatherCache s = None \<or> WEATHER_CACHE_TIME \<le> now - lastFetchTime s"
    using assms(1) by simp
  from fetchWeather_failure [OF this assms(2)] show ?thesis
    by (cases "weatherGrid s")
      (simp_all add: fetchWeather_catch_empty [OF assms(1)] renderWeatherFallback_def)
qed

text \<open>
  C2: with no cache entry and a failing transport the refresh should render the four
  simulated entries. The \<^verbatim>\<open>catch\<close> block calls \<^verbatim>\<open>renderWeatherFallback\<close>, which
  writes a message that no data could be fetched; \<^verbatim>\<open>getSimulatedWeather\<close> is not used
  on this path.
\<close>

theorem C2_failure_without_cache_renders_message:
  "fetchWeather example_calendar 1000 Rejected (new_WeatherManager (Some [])) =
     (\<lparr>weatherGrid = Some fallback_html, weatherCache = None, lastFetchTime = 0\<rparr>,
      [Console_log ''Fetching NEA weather data...'', Fetch WEATHER_FORECAST,
       Console_error ''Weather fetch error:'',
       Announce ''Could not load weather data. Showing cached data.'']) \<and>
   fallback_html \<noteq> concat (map weather_card getSimulatedWeather) \<and>
   str_includes fallback_html ''Unable to fetch live weather data.''"
  by (simp add: fetchWeather_def fetchWeather_try_def fetch_and_parse_def fetchWeather_catch_def
      renderWeatherFallback_def new_WeatherManager_def fallback_html_def weather_card_def
      getSimulatedWeather_def)

subsection \<open>Rendering\<close>

text \<open>A card shows the day (twice), the date, the glyph and the condition of its record.\<close>

lemma weather_card_shows_day: "str_includes (weather_card w) (day w)"
  unfolding weather_card_def by (intro str_includes_append_right str_includes_here)

lemma weather_card_shows_date: "str_includes (weather_card w) (date w)"
  unfolding weather_card_def by (intro str_includes_append_right str_includes_here)

lemma weather_card_shows_emoji: "str_includes (weather_card w) (emoji w)"
  unfolding weather_card_def by (intro str_includes_append_right str_includes_here)

lemma weather_card_shows_condition: "str_includes (weather_card w) (condition w)"
  unfolding weather_card_def by (intro str_includes_append_right str_includes_here)

text \<open>The card does not depend on the forecast text of its record.\<close>

lemma weather_card_ignores_forecast: "weather_card (w\<lparr>forecast := text\<rparr>) = weather_card w"
  by (simp add: weather_card_def)

text \<open>
  C8: each block should contain the raw forecast text of its record. The last line of the
  template literal of \<^verbatim>\<open>renderWeather\<close> is written with double braces and no dollar
  sign, so it is not interpolated: the cards of the four simulated entries hold the
  characters \<^verbatim>\<open>{{ weather.forecast }}\<close> and not ``Thundery showers'', the forecast
  text of the third of them.
\<close>

theorem C8_forecast_text_not_rendered:
  "weatherGrid (fst (renderWeather getSimulatedWeather (new_WeatherManager (Some [])))) =
     Some (concat (map weather_card getSimulatedWeather)) \<and>
   str_includes (concat (map weather_card getSimulatedWeather)) ''{{ weather.forecast }}'' \<and>
   \<not> str_includes (concat (map weather_card getSimulatedWeather)) ''Thundery showers''"
  by (simp add: renderWeather_def new_WeatherManager_def weather_card_def getSimulatedWeather_def
      glyph_sunny_def glyph_partly_def glyph_thunder_def glyph_rain_def)

subsection \<open>Refreshing: failures, missing items and the cache\<close>

lemma parseNEAResponse_no_items:
  assumes "items_missing_or_empty data"
  shows "parseNEAResponse cal data = (getSimulatedWeather, [])"
  using assms by (auto simp: items_missing_or_empty_def parseNEAResponse_def parse_body_def)

lemma renderWeather_state:
  "fst (renderWeather data s) =
     s\<lparr>weatherGrid := map_option (\<lambda>old. concat (map weather_card data)) (weatherGrid s)\<rparr>"
  by (simp add: renderWeather_def split: option.splits)

lemma renderWeather_events:
  "set (snd (renderWeather data s)) \<subseteq> {Console_log ''Weather cards rendered successfully''}"
  by (simp add: renderWeather_def split: option.splits)

lemma fetchWeather_no_items:
  assumes "ok status" and "items_missing_or_empty data"
    and "weatherCache s = None \<or> WEATHER_CACHE_TIME \<le> now - lastFetchTime s"
  shows "fetchWeather cal now (Response status (Some data)) s =
           (s\<lparr>weatherGrid := map_option (\<lambda>old. concat (map weather_card getSimulatedWeather)) (weatherGrid s),
              weatherCache := Some getSimulatedWeather, lastFetchTime := now\<rparr>,
            [Console_log ''Fetching NEA weather data...'', Fetch WEATHER_FORECAST] @
            snd (renderWeather getSimulatedWeather
                   (s\<lparr>weatherCache := Some getSimulatedWeather, lastFetchTime := now\<rparr>)) @
            [Announce ''Weather forecast updated''])"
  by (simp add: fetchWeather_success [OF assms(3) assms(1)] parseNEAResponse_no_items [OF assms(2)]
      renderWeather_state)

text \<open>
  C3: a 2xx response whose body has no or an empty \<^verbatim>\<open>items\<close> collection should be
  handled like a parse failure. It is not: \<^verbatim>\<open>parseNEAResponse\<close> returns the simulated
  entries instead of throwing, so \<^verbatim>\<open>fetchWeather\<close> stays on its success path. With no
  cache entry, the run on \<^verbatim>\<open>{"items": []}\<close> stores and renders the simulated entries and
  announces the update, while the run on a body that is not JSON renders the message of
  \<^verbatim>\<open>renderWeatherFallback\<close>, stores nothing and announces the failure.
\<close>

theorem C3_missing_items_not_a_failure:
  "fetchWeather example_calendar 1000 (Response 200 (Some (JObj [(''items'', JArr [])])))
       (new_WeatherManager (Some [])) =
     (\<lparr>weatherGrid = Some (concat (map weather_card getSimulatedWeather)),
        weatherCache = Some getSimulatedWeather, lastFetchTime = 1000\<rparr>,
      [Console_log ''Fetching NEA weather data...'', Fetch WEATHER_FORECAST,
       Console_log ''Weather cards rendered successfully'',
       Announce ''Weather forecast updated'']) \<and>
   fetchWeather example_calendar 1000 (Response 200 None) (new_WeatherManager (Some [])) =
     (\<lparr>weatherGrid = Some fallback_html, weatherCache = None, lastFetchTime = 0\<rparr>,
      [Console_log ''Fetching NEA weather data...'', Fetch WEATHER_FORECAST,
       Console_error ''Weather fetch error:'',
       Announce ''Could not load weather data. Showing cached data.'']) \<and>
   fetchWeather example_calendar 1000 (Response 200 (Some (JObj [(''items'', JArr [])])))
       (new_WeatherManager (Some [])) \<noteq>
     fetchWeather example_calendar 1000 (Response 200 None) (new_WeatherManager (Some []))"
  by (simp add: fetchWeather_def fetchWeather_try_def fetch_and_parse_def fetchWeather_catch_def
      renderWeatherFallback_def renderWeather_def new_WeatherManager_def parseNEAResponse_def
      parse_body_def ok_def)

text \<open>
  C3, as the code has it: when the request is made (no cache entry, or one at least
  600000 ms old) and the 2xx body has no or an empty \<^verbatim>\<open>items\<close> collection, the
  refresh stores the simulated entries with the current time, replacing any older entry,
  renders them, announces ``Weather forecast updated'' and does not announce the failure.
\<close>

theorem C3_missing_items_take_success_path:
  assumes "ok status" and "items_missing_or_empty data"
    and "weatherCache s = None \<or> 600000 \<le> now - lastFetchTime s"
  shows "fst (fetchWeather cal now (Response status (Some data)) s) =
           s\<lparr>weatherGrid := map_option (\<lambda>old. concat (map weather_card getSimulatedWeather)) (weatherGrid s),
             weatherCache := Some getSimulatedWeather, lastFetchTime := now\<rparr> \<and>
         Announce ''Weather forecast updated'' \<in> set (snd (fetchWeather cal now (Response status (Some data)) s)) \<and>
         Announce ''Could not load weather data. Showing cached data.''
           \<notin> set (snd (fetchWeather cal now (Response status (Some data)) s))"
proof -
  have miss: "weatherCache s = None \<or> WEATHER_CACHE_TIME \<le> now - lastFetchTime s"
    using assms(3) by (simp add: WEATHER_CACHE_TIME_def)
  show ?thesis
    using renderWeather_events [of getSimulatedWeather
        "s\<lparr>weatherCache := Some getSimulatedWeather, lastFetchTime := now\<rparr>"]
    by (auto simp: fetchWeather_no_items [OF assms(1,2) miss])
qed

theorem C3_missing_items_take_success_path_witness:
  "ok 200 \<and> items_missing_or_empty (JObj [(''items'', JArr [])]) \<and>
   weatherCache (new_WeatherManager (Some [])) = None \<and>
   fst (fetchWeather example_calendar 1000 (Response 200 (Some (JObj [(''items'', JArr [])])))
         (new_WeatherManager (Some []))) =
     \<lparr>weatherGrid = Some (concat (map weather_card getSimulatedWeather)),
      weatherCache = Some getSimulatedWeather, lastFetchTime = 1000\<rparr> \<and>
   Announce ''Weather forecast updated''
     \<in> set (snd (fetchWeather example_calendar 1000 (Response 200 (Some (JObj [(''items'', JArr [])])))
                  (new_WeatherManager (Some [])))) \<and>
   Announce ''Could not load weather data. Showing cached data.''
     \<notin> set (snd (fetchWeather example_calendar 1000 (Response 200 (Some (JObj [(''items'', JArr [])])))
                  (new_WeatherManager (Some []))))"
  using C3_missing_items_take_success_path [where status = 200 and data = "JObj [(''items'', JArr [])]"
      and s = "new_WeatherManager (Some [])" and now = 1000 and cal = example_calendar]
  by (simp add: ok_def items_missing_or_empty_def new_WeatherManager_def)

text \<open>With a cache entry the request is made exactly when the entry is 600000 ms old or older.\<close>

lemma request_made_iff_stale:
  assumes "weatherCache s = Some cached"
  shows "Fetch WEATHER_FORECAST \<in> set (snd (fetchWeather cal now net s)) \<longleftrightarrow>
         600000 \<le> now - lastFetchTime s"
proof (cases "now - lastFetchTime s < WEATHER_CACHE_TIME")
  case True
  from fetchWeather_cache_hit [OF assms True, of cal net]
  have "Fetch WEATHER_FORECAST \<notin> set (snd (fetchWeather cal now net s))"
    using renderWeather_events [of cached s] by auto
  then show ?thesis using True by (simp add: WEATHER_CACHE_TIME_def)
next
  case False
  then have miss: "weatherCache s = None \<or> WEATHER_CACHE_TIME \<le> now - lastFetchTime s"
    by simp
  consider (fail) "transport_fails net \<or> body_malformed net"
    | (good) status data where "net = Response status (Some data)" "ok status"
    using net_cases [of net] by blast
  then have "Fetch WEATHER_FORECAST \<in> set (snd (fetchWeather cal now net s))"
  proof cases
    case fail
    show ?thesis by (simp add: fetchWeather_failure [OF miss fail])
  next
    case good
    show ?thesis by (simp add: good(1) fetchWeather_success [OF miss good(2)])
  qed
  then show ?thesis using False by (simp add: WEATHER_CACHE_TIME_def)
qed

text \<open>
  C6: with a cache entry and a failing transport the refresh should always announce the
  failure, whatever the age of the entry. With an entry younger than 600000 ms it does not:
  \<^verbatim>\<open>fetchWeather\<close> returns from the cache check before \<^verbatim>\<open>fetch\<close> is called, so the
  transport is never asked, the cached entries are rendered and nothing is announced.
\<close>

theorem C6_fresh_cache_no_notification:
  "weatherCache example_state = Some example_forecast \<and>
   transport_fails Rejected \<and>
   fetchWeather example_calendar 500000 Rejected example_state =
     (example_state\<lparr>weatherGrid := Some (concat (map weather_card example_forecast))\<rparr>,
      [Console_log ''Using cached weather data'',
       Console_log ''Weather cards rendered successfully'']) \<and>
   Announce ''Could not load weather data. Showing cached data.''
     \<notin> set (snd (fetchWeather example_calendar 500000 Rejected example_state))"
  by (simp add: fetchWeather_def fetchWeather_try_def renderWeather_def example_state_def
      WEATHER_CACHE_TIME_def)

text \<open>
  C6, as the code has it: with a cache entry and a network that fails when asked (the
  transport fails, or the body is not JSON), the refresh renders the cached entries and
  leaves the other fields as they are, whatever the age of the entry; the grid never holds
  the message of \<^verbatim>\<open>renderWeatherFallback\<close>, and it holds the cards of the simulated
  entries only when these are the cards of the cached entries. When the entry is 600000 ms
  old or older, one request is made and the failure is announced; when it is younger, no
  request is made and the failure is not announced.
\<close>

theorem C6_failure_with_cache_renders_cache:
  assumes "weatherCache s = Some cached"
    and "transport_fails net \<or> body_malformed net"
  shows "fst (fetchWeather cal now net s) =
           s\<lparr>weatherGrid := map_option (\<lambda>old. concat (map weather_card cached)) (weatherGrid s)\<rparr> \<and>
         weatherGrid (fst (fetchWeather cal now net s)) \<noteq> Some fallback_html \<and>
         (weatherGrid (fst (fetchWeather cal now net s)) =
            Some (concat (map weather_card getSimulatedWeather)) \<longrightarrow>
          concat (map weather_card cached) = concat (map weather_card getSimulatedWeather)) \<and>
         (600000 \<le> now - lastFetchTime s \<longrightarrow>
            network_accesses (snd (fetchWeather cal now net s)) = 1 \<and>
            Announce ''Could not load weather data. Showing cached data.''
              \<in> set (snd (fetchWeather cal now net s))) \<and>
         (now - lastFetchTime s < 600000 \<longrightarrow>
            network_accesses (snd (fetchWeather cal now net s)) = 0 \<and>
            Announce ''Could not load weather data. Showing cached data.''
              \<notin> set (snd (fetchWeather cal now net s)))"
proof -
  let ?s1 = "s\<lparr>weatherGrid := map_option (\<lambda>old. concat (map weather_card cached)) (weatherGrid s)\<rparr>"
  have state: "fst (fetchWeather cal now net s) = ?s1"
  proof (cases "now - lastFetchTime s < WEATHER_CACHE_TIME")
    case True
    show ?thesis
      by (simp add: fetchWeather_cache_hit [OF assms(1) True] renderWeather_state)
  next
    case False
    then have miss: "weatherCache s = None \<or> WEATHER_CACHE_TIME \<le> now - lastFetchTime s"
      by simp
    show ?thesis
      by (simp add: fetchWeather_failure [OF miss assms(2)] fetchWeather_catch_cached [OF assms(1)]
          renderWeather_state)
  qed
  have grid: "weatherGrid ?s1 \<noteq> Some fallback_html"
    using cards_not_fallback [of cached] by (cases "weatherGrid s") simp_all
  have sim: "weatherGrid ?s1 = Some (concat (map weather_card getSimulatedWeather)) \<longrightarrow>
      concat (map weather_card cached) = concat (map weather_card getSimulatedWeather)"
    by (cases "weatherGrid s") simp_all
  have stale: "network_accesses (snd (fetchWeather cal now net s)) = 1 \<and>
      Announce ''Could not load weather data. Showing cached data.''
        \<in> set (snd (fetchWeather cal now net s))"
    if "600000 \<le> now - lastFetchTime s"
  proof -
    have miss: "weatherCache s = None \<or> WEATHER_CACHE_TIME \<le> now - lastFetchTime s"
      using that by (simp add: WEATHER_CACHE_TIME_def)
    show ?thesis
      by (simp add: fetchWeather_failure [OF miss assms(2)] fetchWeather_catch_cached [OF assms(1)])
  qed
  have fresh: "network_accesses (snd (fetchWeather cal now net s)) = 0 \<and>
      Announce ''Could not load weather data. Showing cached data.''
        \<notin> set (snd (fetchWeather cal now net s))"
    if "now - lastFetchTime s < 600000"
  proof -
    have hit: "now - lastFetchTime s < WEATHER_CACHE_TIME"
      using that by (simp add: WEATHER_CACHE_TIME_def)
    show ?thesis
      using renderWeather_events [of cached s]
      by (auto simp: fetchWeather_cache_hit [OF assms(1) hit])
  qed
  show ?thesis
  proof (intro conjI)
    show "fst (fetchWeather cal now net s) = ?s1"
      by (rule state)
    show "weatherGrid (fst (fetchWeather cal now net s)) \<noteq> Some fallback_html"
      unfolding state by (rule grid)
    show "weatherGrid (fst (fetchWeather cal now net s)) =
            Some (concat (map weather_card getSimulatedWeather)) \<longrightarrow>
          concat (map weather_card cached) = concat (map weather_card getSimulatedWeather)"
      unfolding state by (rule sim)
    show "600000 \<le> now - lastFetchTime s \<longrightarrow>
            network_accesses (snd (fetchWeather cal now net s)) = 1 \<and>
            Announce ''Could not load weather data. Showing cached data.''
              \<in> set (snd (fetchWeather cal now net s))"
    proof
      assume "600000 \<le> now - lastFetchTime s"
      then show "network_accesses (snd (fetchWeather cal now net s)) = 1 \<and>
            Announce ''Could not load weather data. Showing cached data.''
              \<in> set (snd (fetchWeather cal now net s))"
        by (rule stale)
    qed
    show "now - lastFetchTime s < 600000 \<longrightarrow>
            network_accesses (snd (fetchWeather cal now net s)) = 0 \<and>
            Announce ''Could not load weather data. Showing cached data.''
              \<notin> set (snd (fetchWeather cal now net s))"
    proof
      assume "now - lastFetchTime s < 600000"
      then show "network_accesses (snd (fetchWeather cal now net s)) = 0 \<and>
            Announce ''Could not load weather data. Showing cached data.''
              \<notin> set (snd (fetchWeather cal now net s))"
        by (rule fresh)
    qed
  qed
qed

theorem C6_failure_with_cache_renders_cache_witness:
  "weatherCache example_state = Some example_forecast \<and> transport_fails (Response 503 None) \<and>
   fst (fetchWeather example_calendar 700000 (Response 503 None) example_state) =
     example_state\<lparr>weatherGrid := Some (concat (map weather_card example_forecast))\<rparr> \<and>
   600000 \<le> 700000 - lastFetchTime example_state \<and>
   network_accesses (snd (fetchWeather example_calendar 700000 (Response 503 None) example_state)) = 1 \<and>
   Announce ''Could not load weather data. Showing cached data.''
     \<in> set (snd (fetchWeather example_calendar 700000 (Response 503 None) example_state)) \<and>
   500000 - lastFetchTime example_state < 600000 \<and>
   network_accesses (snd (fetchWeather example_calendar 500000 (Response 503 None) example_state)) = 0 \<and>
   Announce ''Could not load weather data. Showing cached data.''
     \<notin> set (snd (fetchWeather example_calendar 500000 (Response 503 None) example_state))"
proof -
  have entry: "weatherCache example_state = Some example_forecast"
    by (simp add: example_state_def)
  have fails: "transport_fails (Response 503 None)"
    by (simp add: ok_def)
  then have net: "transport_fails (Response 503 None) \<or> body_malformed (Response 503 None)"
    by (rule disjI1)
  have old: "600000 \<le> 700000 - lastFetchTime example_state"
    by (simp add: example_state_def)
  have young: "500000 - lastFetchTime example_state < 600000"
    by (simp add: example_state_def)
  have grid: "map_option (\<lambda>old. concat (map weather_card example_forecast)) (weatherGrid example_state) =
      Some (concat (map weather_card example_forecast))"
    by (simp add: example_state_def)
  note late = C6_failure_with_cache_renders_cache [OF entry net, where cal = example_calendar and now = 700000]
  note early = C6_failure_with_cache_renders_cache [OF entry net, where cal = example_calendar and now = 500000]
  have state: "fst (fetchWeather example_calendar 700000 (Response 503 None) example_state) =
      example_state\<lparr>weatherGrid := Some (concat (map weather_card example_forecast))\<rparr>"
    using late [THEN conjunct1] unfolding grid .
  have told: "network_accesses (snd (fetchWeather example_calendar 700000 (Response 503 None) example_state)) = 1 \<and>
      Announce ''Could not load weather data. Showing cached data.''
        \<in> set (snd (fetchWeather example_calendar 700000 (Response 503 None) example_state))"
    using late [THEN conjunct2, THEN conjunct2, THEN conjunct2, THEN conjunct1, THEN mp, OF old] .
  have quiet: "network_accesses (snd (fetchWeather example_calendar 500000 (Response 503 None) example_state)) = 0 \<and>
      Announce ''Could not load weather data. Showing cached data.''
        \<notin> set (snd (fetchWeather example_calendar 500000 (Response 503 None) example_state))"
    using early [THEN conjunct2, THEN conjunct2, THEN conjunct2, THEN conjunct2, THEN mp, OF young] .
  from entry fails state old told young quiet show ?thesis
    by (intro conjI) (erule conjunct1 conjunct2 | assumption)+
qed

text \<open>
  C7: on every failure during fetch or parse both cache fields should keep their values. For
  a 2xx body without \<^verbatim>\<open>items\<close>, which the specification counts as a parse failure,
  they do not: the stale entry is replaced by the simulated entries and the time by the
  current one.
\<close>

theorem C7_missing_items_replace_cache:
  "weatherCache (fst (fetchWeather example_calendar 700000 (Response 200 (Some (JObj []))) example_state)) =
     Some getSimulatedWeather \<and>
   weatherCache example_state = Some example_forecast \<and>
   getSimulatedWeather \<noteq> example_forecast \<and>
   lastFetchTime (fst (fetchWeather example_calendar 700000 (Response 200 (Some (JObj []))) example_state)) =
     700000 \<and>
   lastFetchTime example_state = 1000"
  by (simp add: fetchWeather_def fetchWeather_try_def fetch_and_parse_def renderWeather_def
      parseNEAResponse_def parse_body_def example_state_def ok_def WEATHER_CACHE_TIME_def
      getSimulatedWeather_def example_forecast_def)

text \<open>
  C7, as the code has it: a refresh either leaves \<^verbatim>\<open>weatherCache\<close> and
  \<^verbatim>\<open>lastFetchTime\<close> both as they were, or sets both, to the result of
  \<^verbatim>\<open>parseNEAResponse\<close> on the body just fetched and to the time of this refresh; and
  when the transport fails or the body is not JSON, both are as they were.
\<close>

theorem C7_cache_fields_change_together:
  "(transport_fails net \<or> body_malformed net \<longrightarrow>
      weatherCache (fst (fetchWeather cal now net s)) = weatherCache s \<and>
      lastFetchTime (fst (fetchWeather cal now net s)) = lastFetchTime s) \<and>
   ((weatherCache (fst (fetchWeather cal now net s)) = weatherCache s \<and>
     lastFetchTime (fst (fetchWeather cal now net s)) = lastFetchTime s) \<or>
    (\<exists>status data. net = Response status (Some data) \<and> ok status \<and>
       weatherCache (fst (fetchWeather cal now net s)) = Some (fst (parseNEAResponse cal data)) \<and>
       lastFetchTime (fst (fetchWeather cal now net s)) = now))"
proof (cases "weatherCache s = None \<or> WEATHER_CACHE_TIME \<le> now - lastFetchTime s")
  case miss: True
  have catch: "weatherCache (fst (fetchWeather_catch s)) = weatherCache s \<and>
               lastFetchTime (fst (fetchWeather_catch s)) = lastFetchTime s"
    by (cases "weatherCache s")
      (simp_all add: fetchWeather_catch_cached fetchWeather_catch_empty renderWeatherFallback_def
        split: option.splits)
  consider (fail) "transport_fails net \<or> body_malformed net"
    | (good) status data where "net = Response status (Some data)" "ok status"
    using net_cases [of net] by blast
  then show ?thesis
  proof cases
    case fail
    then show ?thesis by (simp add: fetchWeather_failure [OF miss fail] catch)
  next
    case good
    then show ?thesis by (simp add: fetchWeather_success [OF miss good(2)])
  qed
next
  case False
  then obtain cached where c: "weatherCache s = Some cached"
    and fresh: "now - lastFetchTime s < WEATHER_CACHE_TIME"
    by (cases "weatherCache s") auto
  show ?thesis by (simp add: fetchWeather_cache_hit [OF c fresh])
qed

theorem C7_cache_fields_change_together_witness:
  "transport_fails (Response 503 None) \<and>
   weatherCache (fst (fetchWeather example_calendar 700000 (Response 503 None) example_state)) =
     Some example_forecast \<and>
   lastFetchTime (fst (fetchWeather example_calendar 700000 (Response 503 None) example_state)) = 1000 \<and>
   ok 200 \<and>
   weatherCache (fst (fetchWeather example_calendar 700000 (Response 200 (Some example_body)) example_state)) =
     Some (fst (parseNEAResponse example_calendar example_body)) \<and>
   lastFetchTime (fst (fetchWeather example_calendar 700000 (Response 200 (Some example_body)) example_state)) =
     700000"
proof -
  have changed: "lastFetchTime (fst (fetchWeather example_calendar 700000 (Response 200 (Some example_body)) example_state)) \<noteq>
      lastFetchTime example_state"
    by (simp add: fetchWeather_def fetchWeather_try_def fetch_and_parse_def renderWeather_def
        example_state_def ok_def WEATHER_CACHE_TIME_def split: prod.splits)
  show ?thesis
    using changed
      C7_cache_fields_change_together [where net = "Response 503 None" and cal = example_calendar
        and now = 700000 and s = example_state]
      C7_cache_fields_change_together [where net = "Response 200 (Some example_body)"
        and cal = example_calendar and now = 700000 and s = example_state]
    by (simp add: example_state_def ok_def)
qed

lemma refreshes_Cons:
  "refreshes ((cal, now, net) # rest) s =
     (fst (refreshes rest (fst (fetchWeather cal now net s))),
      snd (fetchWeather cal now net s) @ snd (refreshes rest (fst (fetchWeather cal now net s))))"
  by (simp split: prod.splits)

lemma refreshes_within_window:
  assumes "weatherCache s = Some cached"
    and "list_all (\<lambda>(cal, t, net). t - lastFetchTime s < WEATHER_CACHE_TIME) calls"
  shows "network_accesses (snd (refreshes calls s)) = 0 \<and>
         fst (refreshes calls s) =
           (if calls = [] then s
            else s\<lparr>weatherGrid := map_option (\<lambda>old. concat (map weather_card cached)) (weatherGrid s)\<rparr>)"
  using assms
proof (induction calls arbitrary: s)
  case Nil
  then show ?case by simp
next
  case (Cons call rest)
  obtain cal t net where call: "call = (cal, t, net)" by (cases call) auto
  let ?s1 = "s\<lparr>weatherGrid := map_option (\<lambda>old. concat (map weather_card cached)) (weatherGrid s)\<rparr>"
  have fresh: "t - lastFetchTime s < WEATHER_CACHE_TIME"
    using Cons.prems(2) call by simp
  have step: "fetchWeather cal t net s =
      (?s1, Console_log ''Using cached weather data'' # snd (renderWeather cached s))"
    by (simp add: fetchWeather_cache_hit [OF Cons.prems(1) fresh] renderWeather_state)
  have "weatherCache ?s1 = Some cached" using Cons.prems(1) by simp
  moreover have "list_all (\<lambda>(cal, t, net). t - lastFetchTime ?s1 < WEATHER_CACHE_TIME) rest"
    using Cons.prems(2) by simp
  ultimately have IH: "network_accesses (snd (refreshes rest ?s1)) = 0 \<and>
         fst (refreshes rest ?s1) =
           (if rest = [] then ?s1
            else ?s1\<lparr>weatherGrid := map_option (\<lambda>old. concat (map weather_card cached)) (weatherGrid ?s1)\<rparr>)"
    by (rule Cons.IH)
  have again: "?s1\<lparr>weatherGrid := map_option (\<lambda>old. concat (map weather_card cached)) (weatherGrid ?s1)\<rparr> = ?s1"
    by (cases "weatherGrid s") simp_all
  have "network_accesses (snd (refreshes (call # rest) s)) = 0"
    using IH by (simp add: call refreshes_Cons step del: refreshes.simps)
  moreover have "fst (refreshes (call # rest) s) = ?s1"
    using IH unfolding again by (simp add: call refreshes_Cons step del: refreshes.simps)
  ultimately show ?case by simp
qed

text \<open>
  C10: when the request is made and the 2xx body has no or an empty \<^verbatim>\<open>items\<close>
  collection, the refresh stores the four simulated entries with the current time and
  announces ``Weather forecast updated''; every refresh less than 600000 ms after that time
  then makes no request and renders the simulated entries from the cache.
\<close>

theorem C10_missing_items_cached_as_simulated:
  assumes "ok status" and "items_missing_or_empty data"
    and "weatherCache s = None \<or> 600000 \<le> now - lastFetchTime s"
    and "list_all (\<lambda>(cal, t, net). t - now < 600000) calls"
  shows "weatherCache (fst (fetchWeather cal now (Response status (Some data)) s)) = Some getSimulatedWeather \<and>
         lastFetchTime (fst (fetchWeather cal now (Response status (Some data)) s)) = now \<and>
         Announce ''Weather forecast updated'' \<in> set (snd (fetchWeather cal now (Response status (Some data)) s)) \<and>
         network_accesses (snd (refreshes calls (fst (fetchWeather cal now (Response status (Some data)) s)))) = 0 \<and>
         fst (refreshes calls (fst (fetchWeather cal now (Response status (Some data)) s))) =
           s\<lparr>weatherGrid := map_option (\<lambda>old. concat (map weather_card getSimulatedWeather)) (weatherGrid s),
             weatherCache := Some getSimulatedWeather, lastFetchTime := now\<rparr>"
proof -
  have miss: "weatherCache s = None \<or> WEATHER_CACHE_TIME \<le> now - lastFetchTime s"
    using assms(3) by (simp add: WEATHER_CACHE_TIME_def)
  let ?s1 = "s\<lparr>weatherGrid := map_option (\<lambda>old. concat (map weather_card getSimulatedWeather)) (weatherGrid s),
             weatherCache := Some getSimulatedWeather, lastFetchTime := now\<rparr>"
  have first: "fst (fetchWeather cal now (Response status (Some data)) s) = ?s1"
    and told: "Announce ''Weather forecast updated'' \<in> set (snd (fetchWeather cal now (Response status (Some data)) s))"
    by (simp_all add: fetchWeather_no_items [OF assms(1,2) miss])
  have "list_all (\<lambda>(cal, t, net). t - lastFetchTime ?s1 < WEATHER_CACHE_TIME) calls"
    using assms(4) by (simp add: WEATHER_CACHE_TIME_def)
  from refreshes_within_window [OF _ this, of getSimulatedWeather]
  have later: "network_accesses (snd (refreshes calls ?s1)) = 0 \<and>
         fst (refreshes calls ?s1) =
           (if calls = [] then ?s1
            else ?s1\<lparr>weatherGrid := map_option (\<lambda>old. concat (map weather_card getSimulatedWeather)) (weatherGrid ?s1)\<rparr>)"
    by simp
  show ?thesis
    using later told by (cases "weatherGrid s") (simp_all add: first)
qed

theorem C10_missing_items_cached_as_simulated_witness:
  "ok 200 \<and> items_missing_or_empty (JObj []) \<and> weatherCache (new_WeatherManager (Some [])) = None \<and>
   list_all (\<lambda>(cal, t, net). t - 1000 < 600000)
     [(example_calendar, 2000 :: int, Rejected), (example_calendar, 600999, Response 200 (Some example_body))] \<and>
   weatherCache (fst (fetchWeather example_calendar 1000 (Response 200 (Some (JObj []))) (new_WeatherManager (Some [])))) =
     Some getSimulatedWeather \<and>
   lastFetchTime (fst (fetchWeather example_calendar 1000 (Response 200 (Some (JObj []))) (new_WeatherManager (Some [])))) =
     1000 \<and>
   network_accesses (snd (refreshes
       [(example_calendar, 2000 :: int, Rejected), (example_calendar, 600999, Response 200 (Some example_body))]
       (fst (fetchWeather example_calendar 1000 (Response 200 (Some (JObj []))) (new_WeatherManager (Some [])))))) = 0 \<and>
   fst (refreshes
       [(example_calendar, 2000 :: int, Rejected), (example_calendar, 600999, Response 200 (Some example_body))]
       (fst (fetchWeather example_calendar 1000 (Response 200 (Some (JObj []))) (new_WeatherManager (Some []))))) =
     \<lparr>weatherGrid = Some (concat (map weather_card getSimulatedWeather)),
      weatherCache = Some getSimulatedWeather, lastFetchTime = 1000\<rparr>"
  using C10_missing_items_cached_as_simulated [where status = 200 and data = "JObj []" and s = "new_WeatherManager (Some [])" and now = 1000
      and cal = example_calendar
      and calls = "[(example_calendar, 2000 :: int, Rejected), (example_calendar, 600999, Response 200 (Some example_body))]"]
  by (simp add: ok_def items_missing_or_empty_def new_WeatherManager_def)

subsection \<open>Debouncing\<close>

lemma debounce_inv_new: "debounce_inv new_debounced"
  by (simp add: debounce_inv_def new_debounced_def)

lemma debounce_inv_run_timers: "debounce_inv d \<Longrightarrow> debounce_inv (run_timers now d)"
  by (auto simp: debounce_inv_def run_timers_def Let_def list_all_iff)

lemma clearTimeout_inv:
  assumes "debounce_inv d"
  shows "pending (clearTimeout (timeoutId d) (timers d)) = []"
proof (cases "timeoutId d")
  case None
  then show ?thesis
    using assms by (cases "pending (timers d)") (auto simp: debounce_inv_def clearTimeout_def)
next
  case (Some i)
  then show ?thesis
    using assms by (auto simp: debounce_inv_def clearTimeout_def list_all_iff filter_empty_conv)
qed

lemma debounced_call_inv:
  assumes "debounce_inv d"
  shows "pending (timers (debounced_call delay now args d)) = [(next_id (timers d), now + delay, args)]"
    and "timeoutId (debounced_call delay now args d) = Some (next_id (timers d))"
    and "executed (debounced_call delay now args d) = executed d"
    and "debounce_inv (debounced_call delay now args d)"
proof -
  have nid: "next_id (clearTimeout (timeoutId d) (timers d)) = next_id (timers d)"
    by (simp add: clearTimeout_def split: option.splits)
  show "pending (timers (debounced_call delay now args d)) = [(next_id (timers d), now + delay, args)]"
    and "timeoutId (debounced_call delay now args d) = Some (next_id (timers d))"
    and "executed (debounced_call delay now args d) = executed d"
    by (simp_all add: debounced_call_def setTimeout_def Let_def clearTimeout_inv [OF assms] nid)
  then show "debounce_inv (debounced_call delay now args d)"
    by (simp add: debounce_inv_def)
qed

lemma loadWeatherData_inv:
  assumes "debounce_inv d"
  shows "pending (timers (loadWeatherData now args d)) =
           [(next_id (timers (run_timers now d)), now + DEBOUNCE_DELAY, args)]"
    and "executed (loadWeatherData now args d) = executed (run_timers now d)"
    and "debounce_inv (loadWeatherData now args d)"
  unfolding loadWeatherData_def
  by (simp_all add: debounced_call_inv debounce_inv_run_timers [OF assms])

lemma run_timers_early:
  assumes "pending (timers d) = [(i, t, args)]" and "now < t"
  shows "run_timers now d = d"
  using assms by (simp add: run_timers_def)

lemma run_timers_due:
  assumes "pending (timers d) = [(i, t, args)]" and "t \<le> now"
  shows "executed (run_timers now d) = executed d @ [(t, args)]"
    and "pending (timers (run_timers now d)) = []"
  using assms by (simp_all add: run_timers_def)

text \<open>
  C9: two requests through the debounced entry point, the second less than 300 ms after the
  first, lead to exactly one call of \<^verbatim>\<open>func\<close>: none before the timer of the second
  request is due, and from then on the one of the second request, with its arguments.
\<close>

theorem C9_debounce_coalesces:
  assumes "debounce_inv d" and "t1 \<le> t2" and "t2 - t1 < 300"
  shows "(t_end < t2 + 300 \<longrightarrow>
            executed (run_timers t_end (loadWeatherData t2 a2 (loadWeatherData t1 a1 d))) =
              executed (run_timers t1 d)) \<and>
         (t2 + 300 \<le> t_end \<longrightarrow>
            executed (run_timers t_end (loadWeatherData t2 a2 (loadWeatherData t1 a1 d))) =
              executed (run_timers t1 d) @ [(t2 + 300, a2)])"
proof -
  let ?d1 = "loadWeatherData t1 a1 d"
  let ?d2 = "loadWeatherData t2 a2 ?d1"
  have p1: "pending (timers ?d1) = [(next_id (timers (run_timers t1 d)), t1 + DEBOUNCE_DELAY, a1)]"
    and e1: "executed ?d1 = executed (run_timers t1 d)"
    and i1: "debounce_inv ?d1"
    using loadWeatherData_inv [OF assms(1)] by blast+
  have "t2 < t1 + DEBOUNCE_DELAY"
    using assms(3) by (simp add: DEBOUNCE_DELAY_def)
  then have still: "run_timers t2 ?d1 = ?d1"
    using run_timers_early [OF p1] by simp
  have p2: "pending (timers ?d2) = [(next_id (timers ?d1), t2 + 300, a2)]"
    and e2: "executed ?d2 = executed (run_timers t1 d)"
    using loadWeatherData_inv(1,2) [OF i1, of t2 a2] by (simp_all add: still e1 DEBOUNCE_DELAY_def)
  show ?thesis
  proof (intro conjI impI)
    assume "t_end < t2 + 300"
    then show "executed (run_timers t_end ?d2) = executed (run_timers t1 d)"
      using run_timers_early [OF p2] by (simp add: e2)
  next
    assume "t2 + 300 \<le> t_end"
    then show "executed (run_timers t_end ?d2) = executed (run_timers t1 d) @ [(t2 + 300, a2)]"
      using run_timers_due(1) [OF p2] by (simp add: e2)
  qed
qed

theorem C9_debounce_coalesces_witness:
  "debounce_inv (new_debounced :: nat debounced) \<and> (1000 :: int) \<le> 1050 \<and> (1050 :: int) - 1000 < 300 \<and>
   executed (run_timers 1349 (loadWeatherData 1050 (2 :: nat) (loadWeatherData 1000 1 new_debounced))) = [] \<and>
   executed (run_timers 1350 (loadWeatherData 1050 (2 :: nat) (loadWeatherData 1000 1 new_debounced))) = [(1350, 2)]"
  using C9_debounce_coalesces [where d = "new_debounced :: nat debounced" and ?t1.0 = 1000 and ?t2.0 = 1050
      and ?a1.0 = 1 and ?a2.0 = 2 and t_end = 1349]
    C9_debounce_coalesces [where d = "new_debounced :: nat debounced" and ?t1.0 = 1000 and ?t2.0 = 1050
      and ?a1.0 = 1 and ?a2.0 = 2 and t_end = 1350]
    debounce_inv_new [where ?'a = nat]
  by (simp add: run_timers_def new_debounced_def)

end
